theory Spec2Isabelle
  imports Main "HOL-Library.Monad_Syntax"
begin

section \<open>Values\<close>

text \<open>
  The handlers exchange JSON-like Python values: request bodies parsed by the framework,
  the dictionaries returned by \<^verbatim>\<open>model_dump\<close>, the documents of the store. A Python
  \<^verbatim>\<open>dict\<close> is an association list in insertion order whose keys are pairwise
  different. JSON numbers with a fractional part are left out: no field of the models
  is declared with such a type.
\<close>

datatype json =
    JNull
  | JBool bool
  | JInt int
  | JStr string
  | JList "json list"
  | JObj "(string \<times> json) list"

type_synonym dict = "(string \<times> json) list"

text \<open>\<^verbatim>\<open>d[k] = v\<close>: an existing key keeps its position, a new one goes last.\<close>

fun setitem :: "string \<Rightarrow> json \<Rightarrow> dict \<Rightarrow> dict" where
  "setitem k v [] = [(k, v)]"
| "setitem k v ((k', v') # d) =
     (if k' = k then (k, v) # d else (k', v') # setitem k v d)"

text \<open>\<^verbatim>\<open>str(d.get(k))\<close> where the entry is a string or is missing.\<close>

definition str_get :: "dict \<Rightarrow> string \<Rightarrow> string" where
  "str_get d k = (case map_of d k of Some (JStr x) \<Rightarrow> x | _ \<Rightarrow> ''None'')"

text \<open>
  \<^verbatim>\<open>json.dumps\<close> and \<^verbatim>\<open>json.loads\<close>: the cache holds the serialised text of a
  value. The text is kept abstract as the value it encodes; reading it back returns that
  value. Such a text is never empty, so a cached entry is always truthy.
\<close>

datatype serialized = Dumps json

fun json_loads :: "serialized \<Rightarrow> json" where
  "json_loads (Dumps j) = j"

definition json_dumps :: "json \<Rightarrow> serialized" where
  "json_dumps j = Dumps j"

section \<open>Errors and handler outcomes\<close>

datatype error =
    ValueError string
  | ValidationError
  | KeyError string

fun str_error :: "error \<Rightarrow> string" where
  "str_error (ValueError m) = m"
| "str_error ValidationError = ''validation error''"
| "str_error (KeyError k) = k"

text \<open>
  A handler returns a \<^verbatim>\<open>JSONResponse\<close> with its content, or raises
  \<^verbatim>\<open>HTTPException(status_code, detail)\<close>, or lets another exception escape
  (\<open>Unhandled\<close>). \<open>RequestValidationError\<close> is the framework refusing the request
  before the handler runs.
\<close>

datatype outcome =
    JSONResponse json
  | HTTPException int string
  | RequestValidationError
  | Unhandled error

section \<open>models/paper\_model.py\<close>

subsection \<open>Reading keyword arguments against the declared field types\<close>

definition get_str :: "dict \<Rightarrow> string \<Rightarrow> string option" where
  "get_str kw k = (case map_of kw k of Some (JStr x) \<Rightarrow> Some x | _ \<Rightarrow> None)"

definition get_int :: "dict \<Rightarrow> string \<Rightarrow> int option" where
  "get_int kw k = (case map_of kw k of Some (JInt n) \<Rightarrow> Some n | _ \<Rightarrow> None)"

text \<open>\<^verbatim>\<open>Optional[str] = None\<close>\<close>

definition get_opt_str :: "dict \<Rightarrow> string \<Rightarrow> string option option" where
  "get_opt_str kw k =
     (case map_of kw k of
        None \<Rightarrow> Some None
      | Some JNull \<Rightarrow> Some None
      | Some (JStr x) \<Rightarrow> Some (Some x)
      | Some _ \<Rightarrow> None)"

text \<open>\<^verbatim>\<open>Optional[dict] = {}\<close>\<close>

definition get_opt_dict :: "dict \<Rightarrow> string \<Rightarrow> dict option option" where
  "get_opt_dict kw k =
     (case map_of kw k of
        None \<Rightarrow> Some (Some [])
      | Some JNull \<Rightarrow> Some None
      | Some (JObj d) \<Rightarrow> Some (Some d)
      | Some _ \<Rightarrow> None)"

fun as_str :: "json \<Rightarrow> string option" where
  "as_str (JStr x) = Some x"
| "as_str _ = None"

text \<open>\<^verbatim>\<open>List[str]\<close>\<close>

definition get_str_list :: "dict \<Rightarrow> string \<Rightarrow> string list option" where
  "get_str_list kw k =
     (case map_of kw k of Some (JList xs) \<Rightarrow> those (map as_str xs) | _ \<Rightarrow> None)"

text \<open>\<^verbatim>\<open>List[M]\<close> for a model \<open>M\<close> with constructor \<open>init\<close>\<close>

definition get_model_list :: "(json \<Rightarrow> 'a option) \<Rightarrow> dict \<Rightarrow> string \<Rightarrow> 'a list option" where
  "get_model_list init kw k =
     (case map_of kw k of Some (JList xs) \<Rightarrow> those (map init xs) | _ \<Rightarrow> None)"

text \<open>A field validator that raises makes the construction fail.\<close>

fun validated :: "error + 'a \<Rightarrow> 'a option" where
  "validated (Inr v) = Some v"
| "validated (Inl e) = None"

definition dump_opt_str :: "string option \<Rightarrow> json" where
  "dump_opt_str x = (case x of None \<Rightarrow> JNull | Some s \<Rightarrow> JStr s)"

subsection \<open>Question\<close>

record Question =
  question :: string
  answer :: string
  q_type :: string
  question_slug :: string
  reference_id :: string
  hint :: "string option"
  q_params :: "dict option"

definition validate_question_type :: "string \<Rightarrow> error + string" where
  "validate_question_type v =
     (if v \<notin> {''short'', ''long'', ''multiple_choice''}
      then Inl (ValueError ''Question type must be one of allowed_types'')
      else Inr v)"

fun Question_init :: "json \<Rightarrow> Question option" where
  "Question_init (JObj kw) =
     do {
       q \<leftarrow> get_str kw ''question'';
       a \<leftarrow> get_str kw ''answer'';
       t \<leftarrow> get_str kw ''type'';
       t' \<leftarrow> validated (validate_question_type t);
       sl \<leftarrow> get_str kw ''question_slug'';
       r \<leftarrow> get_str kw ''reference_id'';
       h \<leftarrow> get_opt_str kw ''hint'';
       ps \<leftarrow> get_opt_dict kw ''params'';
       Some \<lparr>question = q, answer = a, q_type = t', question_slug = sl,
             reference_id = r, hint = h, q_params = ps\<rparr>
     }"
| "Question_init _ = None"

definition Question_dump :: "Question \<Rightarrow> json" where
  "Question_dump q =
     JObj [(''question'', JStr (question q)),
           (''answer'', JStr (answer q)),
           (''type'', JStr (q_type q)),
           (''question_slug'', JStr (question_slug q)),
           (''reference_id'', JStr (reference_id q)),
           (''hint'', dump_opt_str (hint q)),
           (''params'', (case q_params q of None \<Rightarrow> JNull | Some d \<Rightarrow> JObj d))]"

subsection \<open>Section\<close>

record Section =
  marks_per_question :: int
  s_type :: string
  questions :: "Question list"

definition validate_section_type :: "string \<Rightarrow> error + string" where
  "validate_section_type v =
     (if v \<notin> {''default'', ''custom''}
      then Inl (ValueError ''Section type must be one of allowed_types'')
      else Inr v)"

fun Section_init :: "json \<Rightarrow> Section option" where
  "Section_init (JObj kw) =
     do {
       m \<leftarrow> get_int kw ''marks_per_question'';
       t \<leftarrow> get_str kw ''type'';
       t' \<leftarrow> validated (validate_section_type t);
       qs \<leftarrow> get_model_list Question_init kw ''questions'';
       Some \<lparr>marks_per_question = m, s_type = t', questions = qs\<rparr>
     }"
| "Section_init _ = None"

definition Section_dump :: "Section \<Rightarrow> json" where
  "Section_dump sec =
     JObj [(''marks_per_question'', JInt (marks_per_question sec)),
           (''type'', JStr (s_type sec)),
           (''questions'', JList (map Question_dump (questions sec)))]"

subsection \<open>PaperParams\<close>

record PaperParams =
  board :: string
  grade :: int
  subject :: string

fun PaperParams_init :: "json \<Rightarrow> PaperParams option" where
  "PaperParams_init (JObj kw) =
     do {
       b \<leftarrow> get_str kw ''board'';
       g \<leftarrow> get_int kw ''grade'';
       su \<leftarrow> get_str kw ''subject'';
       Some \<lparr>board = b, grade = g, subject = su\<rparr>
     }"
| "PaperParams_init _ = None"

definition PaperParams_dump :: "PaperParams \<Rightarrow> json" where
  "PaperParams_dump p =
     JObj [(''board'', JStr (board p)), (''grade'', JInt (grade p)),
           (''subject'', JStr (subject p))]"

subsection \<open>SamplePaper\<close>

record SamplePaper =
  p_id :: "string option"
  title :: string
  p_type :: string
  time :: int
  marks :: int
  params :: PaperParams
  tags :: "string list"
  chapters :: "string list"
  sections :: "Section list"

definition validate_paper_type :: "string \<Rightarrow> error + string" where
  "validate_paper_type v =
     (if v \<notin> {''previous_year'', ''mock'', ''sample''}
      then Inl (ValueError ''Paper type must be one of allowed_types'')
      else Inr v)"

text \<open>
  \<^verbatim>\<open>SamplePaper(**kw)\<close>: every declared field is read and checked against its type,
  the field validators run, keys that are no field are ignored. \<open>None\<close> is the
  \<^verbatim>\<open>ValidationError\<close> of the construction.
\<close>

definition SamplePaper_init :: "dict \<Rightarrow> SamplePaper option" where
  "SamplePaper_init kw =
     do {
       i \<leftarrow> get_opt_str kw ''p_id'';
       ti \<leftarrow> get_str kw ''title'';
       t \<leftarrow> get_str kw ''type'';
       t' \<leftarrow> validated (validate_paper_type t);
       tm \<leftarrow> get_int kw ''time'';
       mk \<leftarrow> get_int kw ''marks'';
       pj \<leftarrow> map_of kw ''params'';
       ps \<leftarrow> PaperParams_init pj;
       tg \<leftarrow> get_str_list kw ''tags'';
       ch \<leftarrow> get_str_list kw ''chapters'';
       ss \<leftarrow> get_model_list Section_init kw ''sections'';
       Some \<lparr>p_id = i, title = ti, p_type = t', time = tm, marks = mk, params = ps,
             tags = tg, chapters = ch, sections = ss\<rparr>
     }"

definition SamplePaper_dump :: "SamplePaper \<Rightarrow> dict" where
  "SamplePaper_dump p =
     [(''p_id'', dump_opt_str (p_id p)),
      (''title'', JStr (title p)),
      (''type'', JStr (p_type p)),
      (''time'', JInt (time p)),
      (''marks'', JInt (marks p)),
      (''params'', PaperParams_dump (params p)),
      (''tags'', JList (map JStr (tags p))),
      (''chapters'', JList (map JStr (chapters p))),
      (''sections'', JList (map Section_dump (sections p)))]"

definition SamplePaper_fields :: "string list" where
  "SamplePaper_fields =
     [''p_id'', ''title'', ''type'', ''time'', ''marks'', ''params'', ''tags'',
      ''chapters'', ''sections'']"

subsection \<open>StandardResponse\<close>

record StandardResponse =
  code :: int
  status :: string
  message :: string
  data :: json

definition StandardResponse_dump :: "StandardResponse \<Rightarrow> json" where
  "StandardResponse_dump r =
     JObj [(''code'', JInt (code r)), (''status'', JStr (status r)),
           (''message'', JStr (message r)), (''data'', data r)]"

subsection \<open>Tasks\<close>

text \<open>
  \<open>datetime\<close> is filled by the default factory with the current time, an opaque
  value handed in as \<open>now\<close>. The keyword arguments of the construction are kept
  beside the record: they are the fields that \<^verbatim>\<open>exclude_unset\<close> keeps.
\<close>

record Tasks =
  t_id :: "string option"
  task_status :: string
  extract_data :: "string option"
  file_path :: "string option"
  file_type :: "string option"
  datetime :: json

definition Tasks_init :: "dict \<Rightarrow> json \<Rightarrow> Tasks option" where
  "Tasks_init kw now =
     do {
       i \<leftarrow> get_opt_str kw ''t_id'';
       st \<leftarrow> get_str kw ''task_status'';
       ex \<leftarrow> get_opt_str kw ''extract_data'';
       fp \<leftarrow> get_opt_str kw ''file_path'';
       ft \<leftarrow> get_opt_str kw ''file_type'';
       Some \<lparr>t_id = i, task_status = st, extract_data = ex, file_path = fp,
             file_type = ft, datetime = now\<rparr>
     }"

definition Tasks_dump :: "Tasks \<Rightarrow> dict" where
  "Tasks_dump t =
     [(''t_id'', dump_opt_str (t_id t)),
      (''task_status'', JStr (task_status t)),
      (''extract_data'', dump_opt_str (extract_data t)),
      (''file_path'', dump_opt_str (file_path t)),
      (''file_type'', dump_opt_str (file_type t)),
      (''datetime'', datetime t)]"

text \<open>\<^verbatim>\<open>model_dump(exclude={...})\<close>\<close>

definition model_dump_exclude :: "string list \<Rightarrow> dict \<Rightarrow> dict" where
  "model_dump_exclude ex d = filter (\<lambda>kv. fst kv \<notin> set ex) d"

text \<open>\<^verbatim>\<open>model_dump(exclude_unset=True)\<close> of a model built from the keywords \<open>kw\<close>\<close>

definition model_dump_exclude_unset :: "dict \<Rightarrow> dict \<Rightarrow> dict" where
  "model_dump_exclude_unset kw d = filter (\<lambda>kv. fst kv \<in> set (map fst kw)) d"

section \<open>helper/helper.py\<close>

text \<open>\<^verbatim>\<open>CustomStandard.response\<close>\<close>

definition response :: "int \<Rightarrow> string \<Rightarrow> string \<Rightarrow> json \<Rightarrow> json" where
  "response c st m d =
     StandardResponse_dump \<lparr>code = c, status = st, message = m, data = d\<rparr>"

section \<open>The document store and the cache\<close>

text \<open>
  A collection is the list of its documents in insertion order. The driver's
  \<^verbatim>\<open>_id\<close> is kept beside the document's other fields, so that \<open>body\<close> is the
  dictionary left after \<^verbatim>\<open>pop("_id")\<close>. A filter \<^verbatim>\<open>{k: v}\<close> selects the first
  document whose field \<open>k\<close> is the string \<open>v\<close>; \<^verbatim>\<open>$set\<close> assigns top-level
  fields.
\<close>

record document =
  oid :: nat
  body :: dict

definition matches :: "string \<Rightarrow> string \<Rightarrow> document \<Rightarrow> bool" where
  "matches k v d = (map_of (body d) k = Some (JStr v))"

definition find_one :: "document list \<Rightarrow> string \<Rightarrow> string \<Rightarrow> document option" where
  "find_one coll k v = find (matches k v) coll"

definition set_fields :: "dict \<Rightarrow> dict \<Rightarrow> dict" where
  "set_fields upd b = fold (\<lambda>kv. setitem (fst kv) (snd kv)) upd b"

fun update_one :: "document list \<Rightarrow> string \<Rightarrow> string \<Rightarrow> dict \<Rightarrow> document list" where
  "update_one [] k v upd = []"
| "update_one (d # ds) k v upd =
     (if matches k v d then d\<lparr>body := set_fields upd (body d)\<rparr> # ds
      else d # update_one ds k v upd)"

text \<open>\<^verbatim>\<open>delete_one\<close> returns \<^verbatim>\<open>deleted_count\<close> with the collection.\<close>

fun delete_one :: "document list \<Rightarrow> string \<Rightarrow> string \<Rightarrow> nat \<times> document list" where
  "delete_one [] k v = (0, [])"
| "delete_one (d # ds) k v =
     (if matches k v d then (1, ds)
      else (case delete_one ds k v of (n, ds') \<Rightarrow> (n, d # ds')))"

text \<open>
  The state of the service: the two collections of \<^verbatim>\<open>sample_papers_db\<close>, the cache,
  the background tasks scheduled and not yet run (the arguments of \<^verbatim>\<open>process_Data\<close>:
  file path, task id, file type) and the next \<^verbatim>\<open>_id\<close> the driver hands out.
\<close>

record state =
  papers :: "document list"
  Tasks_coll :: "document list"
  redis_client :: "string \<Rightarrow> serialized option"
  background_tasks :: "(string \<times> string \<times> string) list"
  next_oid :: nat

definition init_state :: state where
  "init_state = \<lparr>papers = [], Tasks_coll = [], redis_client = (\<lambda>k. None),
                  background_tasks = [], next_oid = 0\<rparr>"

text \<open>\<^verbatim>\<open>insert_one\<close> returns \<^verbatim>\<open>inserted_id\<close> with the new state.\<close>

definition papers_insert_one :: "dict \<Rightarrow> state \<Rightarrow> nat option \<times> state" where
  "papers_insert_one d s =
     (Some (next_oid s),
      s\<lparr>papers := papers s @ [\<lparr>oid = next_oid s, body = d\<rparr>],
        next_oid := Suc (next_oid s)\<rparr>)"

definition Tasks_insert_one :: "dict \<Rightarrow> state \<Rightarrow> nat option \<times> state" where
  "Tasks_insert_one d s =
     (Some (next_oid s),
      s\<lparr>Tasks_coll := Tasks_coll s @ [\<lparr>oid = next_oid s, body = d\<rparr>],
        next_oid := Suc (next_oid s)\<rparr>)"

definition redis_set :: "string \<Rightarrow> serialized \<Rightarrow> state \<Rightarrow> state" where
  "redis_set k v s = s\<lparr>redis_client := (redis_client s)(k \<mapsto> v)\<rparr>"

definition redis_delete :: "string \<Rightarrow> state \<Rightarrow> state" where
  "redis_delete k s = s\<lparr>redis_client := (redis_client s)(k := None)\<rparr>"

section \<open>routes/paper\_routes.py\<close>

subsection \<open>create\_paper\<close>

text \<open>\<open>uuid4\<close> is the string \<^verbatim>\<open>str(uuid.uuid4())\<close> drawn by the call.\<close>

definition create_paper :: "string \<Rightarrow> SamplePaper \<Rightarrow> state \<Rightarrow> outcome \<times> state" where
  "create_paper uuid4 paper s =
     (let paper_dict = SamplePaper_dump paper;
          paper_dict = setitem ''p_id'' (JStr uuid4) paper_dict
      in case papers_insert_one paper_dict s of
           (Some inserted_id, s') \<Rightarrow>
             (JSONResponse
                (response 200 ''success'' ''Sample paper created successfully''
                   (JObj [(''paper_id'', JStr (str_get paper_dict ''p_id''))])), s')
         | (None, s') \<Rightarrow> (HTTPException 500 ''Failed to create sample paper'', s'))"

subsection \<open>get\_paper\<close>

definition get_paper :: "string \<Rightarrow> state \<Rightarrow> outcome \<times> state" where
  "get_paper p s =
     (case redis_client s p of
        Some cached_paper \<Rightarrow>
          (JSONResponse
             (response 200 ''success'' ''Paper retrieved from cache''
                (json_loads cached_paper)), s)
      | None \<Rightarrow>
          (case find_one (papers s) ''p_id'' p of
             Some paper \<Rightarrow>
               (JSONResponse
                  (response 200 ''success'' ''Paper retrieved from database''
                     (JObj (body paper))),
                redis_set p (json_dumps (JObj (body paper))) s)
           | None \<Rightarrow> (HTTPException 404 ''Paper not found'', s)))"

subsection \<open>update\_paper\<close>

text \<open>
  The model object is represented by the dictionary of its fields in dumped form.
  \<^verbatim>\<open>setattr\<close> replaces an entry and checks nothing (the model does not ask for
  validation on assignment); \<^verbatim>\<open>hasattr\<close> holds for the declared fields (a patch
  naming a method or another attribute of the base class is outside the model).
  \<^verbatim>\<open>model_dump\<close> serialises what the fields hold and raises no \<^verbatim>\<open>ValueError\<close>.
\<close>

definition hasattr :: "string \<Rightarrow> bool" where
  "hasattr field = (field \<in> set SamplePaper_fields)"

definition setattrs :: "dict \<Rightarrow> dict \<Rightarrow> dict" where
  "setattrs patch obj =
     fold (\<lambda>kv obj. if hasattr (fst kv) then setitem (fst kv) (snd kv) obj else obj)
       patch obj"

definition model_dump :: "dict \<Rightarrow> error + dict" where
  "model_dump obj = Inr obj"

definition update_paper :: "string \<Rightarrow> dict \<Rightarrow> state \<Rightarrow> outcome \<times> state" where
  "update_paper p paper s =
     (case find_one (papers s) ''p_id'' p of
        None \<Rightarrow> (HTTPException 404 ''Paper not found'', s)
      | Some existing_paper \<Rightarrow>
          (case SamplePaper_init (body existing_paper) of
             None \<Rightarrow> (Unhandled ValidationError, s)
           | Some current_paper \<Rightarrow>
               (case model_dump (setattrs paper (SamplePaper_dump current_paper)) of
                  Inl e \<Rightarrow> (HTTPException 422 (str_error e), s)
                | Inr updated_paper \<Rightarrow>
                    (JSONResponse
                       (response 200 ''success'' ''Paper updated successfully''
                          (JObj updated_paper)),
                     redis_set p (json_dumps (JObj updated_paper))
                       (s\<lparr>papers := update_one (papers s) ''p_id'' p paper\<rparr>)))))"

subsection \<open>delete\_paper\<close>

definition delete_paper :: "string \<Rightarrow> state \<Rightarrow> outcome \<times> state" where
  "delete_paper paper_id s =
     (case delete_one (papers s) ''p_id'' paper_id of
        (deleted_count, ps) \<Rightarrow>
          if deleted_count = 0 then (HTTPException 404 ''Paper not found'', s\<lparr>papers := ps\<rparr>)
          else (JSONResponse (response 200 ''success'' ''Paper deleted successfully'' JNull),
                redis_delete paper_id (s\<lparr>papers := ps\<rparr>)))"

text \<open>
  The route is \<^verbatim>\<open>/papers/{p_id}\<close> and the handler's parameter is \<^verbatim>\<open>paper_id\<close>:
  a parameter that is not named in the path is read from the query string, and is
  required when it has no default. The path segment is bound to nothing.
\<close>

definition delete_papers_route :: "string \<Rightarrow> string option \<Rightarrow> state \<Rightarrow> outcome \<times> state" where
  "delete_papers_route path_p_id query_paper_id s =
     (case query_paper_id of
        None \<Rightarrow> (RequestValidationError, s)
      | Some paper_id \<Rightarrow> delete_paper paper_id s)"

subsection \<open>process\_Data\<close>

text \<open>
  What \<^verbatim>\<open>await get_raw_data(file_path, file_type)\<close> does is an input: it returns a
  value or raises an exception with a description.
\<close>

datatype extraction = Returned json | Raised string

definition Tasks_update_one :: "string \<Rightarrow> dict \<Rightarrow> state \<Rightarrow> state" where
  "Tasks_update_one task_id upd s =
     s\<lparr>Tasks_coll := update_one (Tasks_coll s) ''t_id'' task_id upd\<rparr>"

text \<open>
  The \<^verbatim>\<open>except\<close> branch: \<open>description\<close> is \<^verbatim>\<open>str(e)\<close>. An exception raised
  here leaves \<^verbatim>\<open>process_Data\<close>.
\<close>

definition process_Data_except :: "string \<Rightarrow> string \<Rightarrow> json \<Rightarrow> state \<Rightarrow> error option \<times> state" where
  "process_Data_except description task_id now s =
     (let kw = [(''task_status'', JStr ''failed''),
                (''extract_data'', JObj [(''error'', JStr description)])]
      in case Tasks_init kw now of
           None \<Rightarrow> (Some ValidationError, s)
         | Some t \<Rightarrow>
             (None, Tasks_update_one task_id (model_dump_exclude_unset kw (Tasks_dump t)) s))"

definition process_Data ::
  "extraction \<Rightarrow> string \<Rightarrow> string \<Rightarrow> string \<Rightarrow> json \<Rightarrow> state \<Rightarrow> error option \<times> state" where
  "process_Data raw_data fpath task_id ftype now s =
     (case raw_data of
        Raised description \<Rightarrow> process_Data_except description task_id now s
      | Returned extracted \<Rightarrow>
          (let kw = [(''task_status'', JStr ''completed''), (''extract_data'', extracted)]
           in case Tasks_init kw now of
                None \<Rightarrow> process_Data_except (str_error ValidationError) task_id now s
              | Some t \<Rightarrow>
                  (None,
                   Tasks_update_one task_id (model_dump_exclude_unset kw (Tasks_dump t)) s)))"

subsection \<open>extract\_text\<close>

definition upper_char :: "char \<Rightarrow> char" where
  "upper_char c =
     (let n = (of_char c :: nat) in if 97 \<le> n \<and> n \<le> 122 then char_of (n - 32) else c)"

definition upper :: "string \<Rightarrow> string" where
  "upper s = map upper_char s"

text \<open>
  \<open>uuid4\<close> is the task id drawn, \<open>fpath\<close> what \<^verbatim>\<open>store_file_in_local_dir\<close>
  returned and \<open>ftype\<close> what \<^verbatim>\<open>determine_file_type\<close> returned.
\<close>

definition extract_text :: "string \<Rightarrow> string \<Rightarrow> string \<Rightarrow> json \<Rightarrow> state \<Rightarrow> outcome \<times> state" where
  "extract_text uuid4 fpath ftype now s =
     (let kw = [(''t_id'', JStr uuid4), (''task_status'', JStr ''processing''),
                (''file_path'', JStr fpath), (''file_type'', JStr ftype)]
      in case Tasks_init kw now of
           None \<Rightarrow> (Unhandled ValidationError, s)
         | Some t \<Rightarrow>
             (let s1 = snd (Tasks_insert_one (model_dump_exclude [''extract_data''] (Tasks_dump t)) s);
                  s2 = s1\<lparr>background_tasks := background_tasks s1 @ [(fpath, uuid4, ftype)]\<rparr>
              in (JSONResponse
                    (response 202 ''processing'' (upper ftype @ '' extraction started'')
                       (JObj [(''task_id'', JStr uuid4)])), s2)))"

subsection \<open>get\_task\_status\<close>

definition get_task_status :: "string \<Rightarrow> state \<Rightarrow> outcome \<times> state" where
  "get_task_status task_id s =
     (case find_one (Tasks_coll s) ''t_id'' task_id of
        Some task \<Rightarrow>
          (case map_of (body task) ''task_status'' of
             Some st \<Rightarrow>
               (JSONResponse
                  (response 200 ''success'' ''Task status retrieved''
                     (JObj [(''status'', st)])), s)
           | None \<Rightarrow> (Unhandled (KeyError ''task_status''), s))
      | None \<Rightarrow> (HTTPException 404 ''Task not found'', s))"

section \<open>The service as a whole\<close>

subsection \<open>Requests\<close>

text \<open>
  A request carries what the handler draws from its environment while it runs: the
  identifier \<^verbatim>\<open>uuid4\<close> returns, the stored path and detected type of an upload, the
  clock. The framework validates a body against the handler's parameter type before
  the handler runs: \<^verbatim>\<open>paper: SamplePaper\<close> for the creation, \<^verbatim>\<open>paper: dict\<close> for
  the update.
\<close>

datatype request =
    POST_paper string json
  | GET_papers string
  | PUT_papers string json
  | DELETE_papers string "string option"
  | POST_extract_text string string string json
  | GET_tasks string

definition post_paper_route :: "string \<Rightarrow> json \<Rightarrow> state \<Rightarrow> outcome \<times> state" where
  "post_paper_route uuid4 b s =
     (case b of
        JObj kw \<Rightarrow>
          (case SamplePaper_init kw of
             Some paper \<Rightarrow> create_paper uuid4 paper s
           | None \<Rightarrow> (RequestValidationError, s))
      | _ \<Rightarrow> (RequestValidationError, s))"

definition put_papers_route :: "string \<Rightarrow> json \<Rightarrow> state \<Rightarrow> outcome \<times> state" where
  "put_papers_route p b s =
     (case b of
        JObj paper \<Rightarrow> update_paper p paper s
      | _ \<Rightarrow> (RequestValidationError, s))"

fun handle :: "request \<Rightarrow> state \<Rightarrow> outcome \<times> state" where
  "handle (POST_paper uuid4 b) s = post_paper_route uuid4 b s"
| "handle (GET_papers p) s = get_paper p s"
| "handle (PUT_papers p b) s = put_papers_route p b s"
| "handle (DELETE_papers p q) s = delete_papers_route p q s"
| "handle (POST_extract_text uuid4 fpath ftype now) s = extract_text uuid4 fpath ftype now s"
| "handle (GET_tasks t) s = get_task_status t s"

subsection \<open>What the caller receives\<close>

text \<open>
  \<^verbatim>\<open>main.py\<close> installs no exception handler, so an \<^verbatim>\<open>HTTPException\<close> is answered
  by the framework's default: the status code with the body \<^verbatim>\<open>{"detail": detail}\<close>.
\<close>

definition http_exception_handler :: "int \<Rightarrow> string \<Rightarrow> int \<times> json" where
  "http_exception_handler status_code detail = (status_code, JObj [(''detail'', JStr detail)])"

text \<open>
  The body sent for an outcome of a handler; \<open>None\<close> where the framework writes the
  body itself (the report of a refused request, the plain text of a server error).
\<close>

fun sent_body :: "outcome \<Rightarrow> json option" where
  "sent_body (JSONResponse content) = Some content"
| "sent_body (HTTPException c detail) = Some (snd (http_exception_handler c detail))"
| "sent_body RequestValidationError = None"
| "sent_body (Unhandled e) = None"

text \<open>The envelope: an object with exactly the keys code, status, message, data.\<close>

definition is_envelope :: "json \<Rightarrow> bool" where
  "is_envelope j =
     (case j of
        JObj kw \<Rightarrow>
          (case kw of
             [(k1, JInt c), (k2, JStr st), (k3, JStr m), (k4, d)] \<Rightarrow>
               k1 = ''code'' \<and> k2 = ''status'' \<and> k3 = ''message'' \<and> k4 = ''data''
           | _ \<Rightarrow> False)
      | _ \<Rightarrow> False)"

fun envelope_or_exception :: "outcome \<Rightarrow> bool" where
  "envelope_or_exception (JSONResponse content) = is_envelope content"
| "envelope_or_exception (HTTPException c detail) = (c = 404 \<or> c = 422 \<or> c = 500)"
| "envelope_or_exception RequestValidationError = True"
| "envelope_or_exception (Unhandled e) = True"

subsection \<open>Events\<close>

text \<open>
  The service moves by requests and by background tasks: \<open>Worker n raw now\<close> runs the
  \<open>n\<close>-th scheduled task, whose extraction call behaves as \<open>raw\<close>, and takes it off
  the schedule. An extraction request is admissible when the task id it draws is new.
\<close>

datatype event = Request request | Worker nat extraction json

definition run_worker :: "nat \<Rightarrow> extraction \<Rightarrow> json \<Rightarrow> state \<Rightarrow> state" where
  "run_worker n raw now s =
     (if n < length (background_tasks s)
      then (case background_tasks s ! n of
              (fpath, task_id, ftype) \<Rightarrow>
                snd (process_Data raw fpath task_id ftype now
                       (s\<lparr>background_tasks :=
                            take n (background_tasks s) @ drop (Suc n) (background_tasks s)\<rparr>)))
      else s)"

fun exec :: "event \<Rightarrow> state \<Rightarrow> state" where
  "exec (Request r) s = snd (handle r s)"
| "exec (Worker n raw now) s = run_worker n raw now s"

fun admissible :: "event \<Rightarrow> state \<Rightarrow> bool" where
  "admissible (Request (POST_extract_text uuid4 fpath ftype now)) s =
     (find_one (Tasks_coll s) ''t_id'' uuid4 = None)"
| "admissible ev s = True"

fun run :: "event list \<Rightarrow> state \<Rightarrow> state option" where
  "run [] s = Some s"
| "run (ev # evs) s = (if admissible ev s then run evs (exec ev s) else None)"

text \<open>The status stored in the \<open>i\<close>-th task document.\<close>

definition status_at :: "nat \<Rightarrow> state \<Rightarrow> json option" where
  "status_at i s = map_of (body (Tasks_coll s ! i)) ''task_status''"

text \<open>A task is pending while its background task is scheduled and has not run.\<close>

definition job_id :: "string \<times> string \<times> string \<Rightarrow> string" where
  "job_id job = fst (snd job)"

definition pending :: "string \<Rightarrow> state \<Rightarrow> bool" where
  "pending task_id s = (task_id \<in> set (map job_id (background_tasks s)))"

subsection \<open>Sample data\<close>

definition math_midterm :: SamplePaper where
  "math_midterm =
     \<lparr>p_id = None, title = ''Math Mid-Term'', p_type = ''mock'', time = 60, marks = 50,
      params = \<lparr>board = ''CBSE'', grade = 10, subject = ''Math''\<rparr>,
      tags = [], chapters = [''Algebra''],
      sections =
        [\<lparr>marks_per_question = 5, s_type = ''default'',
          questions =
            [\<lparr>question = ''2+2?'', answer = ''4'', q_type = ''short'',
              question_slug = ''q1'', reference_id = ''r1'', hint = None,
              q_params = Some []\<rparr>]\<rparr>]\<rparr>"


text \<open>A store holding the paper under the identifier A, and nothing cached.\<close>

definition stored_A :: state where
  "stored_A = snd (create_paper ''A'' math_midterm init_state)"

text \<open>The same store after a second paper was created under the identifier B.\<close>

definition stored_AB :: state where
  "stored_AB = snd (create_paper ''B'' math_midterm stored_A)"

text \<open>A patch whose \<open>type\<close> is none of the allowed paper types, and the stored paper with it.\<close>

definition bogus_patch :: dict where
  "bogus_patch = [(''type'', JStr ''bogus'')]"

definition bogus_A :: dict where
  "bogus_A =
     setitem ''type'' (JStr ''bogus'') (SamplePaper_dump (math_midterm\<lparr>p_id := Some ''A''\<rparr>))"



text \<open>An upload accepted in the empty service, its task id being t1.\<close>

definition accepted_t1 :: state where
  "accepted_t1 = snd (extract_text ''t1'' ''/tmp/f.txt'' ''txt'' JNull init_state)"



text \<open>The task t1 after its worker ran and the extraction returned a text.\<close>

definition completed_t1 :: state where
  "completed_t1 = run_worker 0 (Returned (JStr ''hello'')) JNull accepted_t1"

subsection \<open>The invariant of the task collection\<close>

text \<open>
  In every state the service reaches, a task document is \<open>processing\<close> or
  \<open>completed\<close>, the scheduled background tasks have pairwise different task ids, and
  the document found under the id of a scheduled task is still \<open>processing\<close>.
  \<open>completed_upd\<close> is the update the worker writes and \<open>processing_body\<close> the
  document the extraction request inserts.
\<close>

definition task_inv :: "state \<Rightarrow> bool" where
  "task_inv s =
     ((\<forall>d \<in> set (Tasks_coll s).
         map_of (body d) ''task_status'' = Some (JStr ''processing'')
         \<or> map_of (body d) ''task_status'' = Some (JStr ''completed''))
      \<and> distinct (map job_id (background_tasks s))
      \<and> (\<forall>job \<in> set (background_tasks s).
            \<exists>d. find_one (Tasks_coll s) ''t_id'' (job_id job) = Some d
                \<and> map_of (body d) ''task_status'' = Some (JStr ''processing'')))"

definition completed_upd :: "json \<Rightarrow> dict" where
  "completed_upd x = [(''task_status'', JStr ''completed''), (''extract_data'', x)]"

definition processing_body :: "string \<Rightarrow> string \<Rightarrow> string \<Rightarrow> json \<Rightarrow> dict" where
  "processing_body uuid4 fpath ftype now =
     [(''t_id'', JStr uuid4), (''task_status'', JStr ''processing''),
      (''file_path'', JStr fpath), (''file_type'', JStr ftype), (''datetime'', now)]"

section \<open>Auxiliary facts\<close>

lemma setitem_p_id_dump:
  "setitem ''p_id'' (JStr u) (SamplePaper_dump p) = SamplePaper_dump (p\<lparr>p_id := Some u\<rparr>)"
  by (simp add: SamplePaper_dump_def dump_opt_str_def)

lemma str_get_p_id_dump: "str_get (SamplePaper_dump (p\<lparr>p_id := Some u\<rparr>)) ''p_id'' = u"
  by (simp add: SamplePaper_dump_def dump_opt_str_def str_get_def)

lemma matches_p_id_dump:
  "matches ''p_id'' u \<lparr>oid = n, body = SamplePaper_dump (p\<lparr>p_id := Some u\<rparr>)\<rparr>"
  by (simp add: matches_def SamplePaper_dump_def dump_opt_str_def)

lemma find_one_append:
  "find_one (coll @ [d]) k v =
     (case find_one coll k v of
        Some x \<Rightarrow> Some x
      | None \<Rightarrow> if matches k v d then Some d else None)"
  by (induction coll) (simp_all add: find_one_def)

lemma create_paper_eq:
  "create_paper uuid4 paper s =
     (JSONResponse (response 200 ''success'' ''Sample paper created successfully''
                      (JObj [(''paper_id'', JStr uuid4)])),
      s\<lparr>papers := papers s @
           [\<lparr>oid = next_oid s, body = SamplePaper_dump (paper\<lparr>p_id := Some uuid4\<rparr>)\<rparr>],
        next_oid := Suc (next_oid s)\<rparr>)"
  by (simp add: create_paper_def papers_insert_one_def setitem_p_id_dump str_get_p_id_dump)

lemma stored_A_eq:
  "stored_A =
     \<lparr>papers = [\<lparr>oid = 0, body = SamplePaper_dump (math_midterm\<lparr>p_id := Some ''A''\<rparr>)\<rparr>],
      Tasks_coll = [], redis_client = (\<lambda>k. None), background_tasks = [], next_oid = Suc 0\<rparr>"
  by (simp add: stored_A_def create_paper_eq init_state_def)

lemmas init_defs = SamplePaper_init_def get_opt_str_def get_str_def get_int_def
  get_str_list_def get_model_list_def validate_paper_type_def validate_section_type_def
  validate_question_type_def get_opt_dict_def

lemmas dump_defs = SamplePaper_dump_def dump_opt_str_def PaperParams_dump_def
  Section_dump_def Question_dump_def

lemma math_midterm_roundtrip:
  "SamplePaper_init (SamplePaper_dump (math_midterm\<lparr>p_id := Some i\<rparr>)) =
     Some (math_midterm\<lparr>p_id := Some i\<rparr>)"
  by (simp add: init_defs dump_defs math_midterm_def)



lemma map_of_setitem: "map_of (setitem k v d) = (map_of d)(k \<mapsto> v)"
  by (induction d) auto




lemma is_envelope_response: "is_envelope (response c st m d)"
  by (simp add: is_envelope_def response_def StandardResponse_dump_def)

lemma Tasks_init_failed:
  "Tasks_init [(''task_status'', JStr ''failed''),
               (''extract_data'', JObj [(''error'', JStr d)])] now = None"
  by (simp add: Tasks_init_def get_opt_str_def get_str_def)

lemma process_Data_except_raises:
  "process_Data_except d t now s = (Some ValidationError, s)"
  by (simp add: process_Data_except_def Tasks_init_failed)

lemma stored_AB_eq:
  "stored_AB =
     \<lparr>papers = [\<lparr>oid = 0, body = SamplePaper_dump (math_midterm\<lparr>p_id := Some ''A''\<rparr>)\<rparr>,
                \<lparr>oid = Suc 0, body = SamplePaper_dump (math_midterm\<lparr>p_id := Some ''B''\<rparr>)\<rparr>],
      Tasks_coll = [], redis_client = (\<lambda>k. None), background_tasks = [], next_oid = Suc (Suc 0)\<rparr>"
  by (simp add: stored_AB_def create_paper_eq stored_A_eq)

lemma matches_p_id_dump_iff:
  "matches ''p_id'' u \<lparr>oid = n, body = SamplePaper_dump (p\<lparr>p_id := Some v\<rparr>)\<rparr> \<longleftrightarrow> u = v"
  by (auto simp add: matches_def SamplePaper_dump_def dump_opt_str_def)

lemma accepted_t1_eq:
  "accepted_t1 =
     \<lparr>papers = [],
      Tasks_coll = [\<lparr>oid = 0, body = [(''t_id'', JStr ''t1''), (''task_status'', JStr ''processing''),
                       (''file_path'', JStr ''/tmp/f.txt''), (''file_type'', JStr ''txt''),
                       (''datetime'', JNull)]\<rparr>],
      redis_client = (\<lambda>k. None),
      background_tasks = [(''/tmp/f.txt'', ''t1'', ''txt'')], next_oid = Suc 0\<rparr>"
  by (simp add: accepted_t1_def extract_text_def Tasks_init_def get_opt_str_def get_str_def
        Tasks_insert_one_def init_state_def Tasks_dump_def model_dump_exclude_def dump_opt_str_def)









lemma extract_text_eq:
  "extract_text uuid4 fpath ftype now s =
     (JSONResponse (response 202 ''processing'' (upper ftype @ '' extraction started'')
                      (JObj [(''task_id'', JStr uuid4)])),
      s\<lparr>Tasks_coll := Tasks_coll s @
            [\<lparr>oid = next_oid s, body = processing_body uuid4 fpath ftype now\<rparr>],
        next_oid := Suc (next_oid s),
        background_tasks := background_tasks s @ [(fpath, uuid4, ftype)]\<rparr>)"
  by (simp add: extract_text_def Tasks_init_def get_opt_str_def get_str_def
        Tasks_insert_one_def Tasks_dump_def model_dump_exclude_def dump_opt_str_def
        processing_body_def)

lemma process_Data_cases:
  "snd (process_Data raw fpath task_id ftype now s) = s
   \<or> (\<exists>x. snd (process_Data raw fpath task_id ftype now s) =
            s\<lparr>Tasks_coll := update_one (Tasks_coll s) ''t_id'' task_id (completed_upd x)\<rparr>)"
proof (cases raw)
  case (Raised d)
  then show ?thesis by (simp add: process_Data_def process_Data_except_raises)
next
  case (Returned x)
  show ?thesis
  proof (cases "Tasks_init [(''task_status'', JStr ''completed''), (''extract_data'', x)] now")
    case None
    with Returned show ?thesis by (simp add: process_Data_def process_Data_except_raises)
  next
    case (Some t)
    then have "model_dump_exclude_unset
                 [(''task_status'', JStr ''completed''), (''extract_data'', x)] (Tasks_dump t)
               = completed_upd x"
      by (auto simp: Tasks_init_def get_opt_str_def get_str_def model_dump_exclude_unset_def
            Tasks_dump_def dump_opt_str_def completed_upd_def bind_eq_Some_conv
            split: option.splits json.splits)
    with Returned Some show ?thesis
      by (auto simp: process_Data_def Tasks_update_one_def)
  qed
qed

lemma length_update_one: "length (update_one coll k v upd) = length coll"
  by (induction coll) simp_all

lemma nth_update_one:
  "i < length coll \<Longrightarrow>
     update_one coll k v upd ! i = coll ! i
     \<or> update_one coll k v upd ! i = (coll ! i)\<lparr>body := set_fields upd (body (coll ! i))\<rparr>"
proof (induction coll arbitrary: i)
  case Nil
  then show ?case by simp
next
  case (Cons d ds)
  then show ?case by (cases i) auto
qed

lemma set_update_one:
  "d' \<in> set (update_one coll k v upd) \<Longrightarrow>
     d' \<in> set coll \<or> (\<exists>d \<in> set coll. d' = d\<lparr>body := set_fields upd (body d)\<rparr>)"
  by (induction coll) (auto split: if_splits)

lemma completed_upd_status:
  "map_of (set_fields (completed_upd x) b) ''task_status'' = Some (JStr ''completed'')"
  by (simp add: set_fields_def completed_upd_def map_of_setitem)

lemma completed_upd_t_id:
  "map_of (set_fields (completed_upd x) b) ''t_id'' = map_of b ''t_id''"
  by (simp add: set_fields_def completed_upd_def map_of_setitem)

lemma find_one_update_one_other:
  assumes "v' \<noteq> v"
  shows "find_one (update_one coll ''t_id'' v (completed_upd x)) ''t_id'' v' = find_one coll ''t_id'' v'"
proof (induction coll)
  case Nil
  then show ?case by (simp add: find_one_def)
next
  case (Cons d ds)
  show ?case
  proof (cases "matches ''t_id'' v d")
    case True
    then have "\<not> matches ''t_id'' v' d" using assms by (auto simp: matches_def)
    moreover have "\<not> matches ''t_id'' v' (d\<lparr>body := set_fields (completed_upd x) (body d)\<rparr>)"
      using True assms by (auto simp: matches_def completed_upd_t_id)
    ultimately show ?thesis using True by (simp add: find_one_def)
  next
    case False
    with Cons show ?thesis by (simp add: find_one_def)
  qed
qed

lemma find_one_Some_mem: "find_one coll k v = Some d \<Longrightarrow> d \<in> set coll \<and> matches k v d"
  by (auto simp: find_one_def find_Some_iff)

lemma task_inv_init: "task_inv init_state"
  by (simp add: task_inv_def init_state_def)

lemma paper_handlers_keep_tasks:
  "Tasks_coll (snd (create_paper u paper s)) = Tasks_coll s"
  "background_tasks (snd (create_paper u paper s)) = background_tasks s"
  "Tasks_coll (snd (get_paper p s)) = Tasks_coll s"
  "background_tasks (snd (get_paper p s)) = background_tasks s"
  "Tasks_coll (snd (update_paper p patch s)) = Tasks_coll s"
  "background_tasks (snd (update_paper p patch s)) = background_tasks s"
  "Tasks_coll (snd (delete_paper p s)) = Tasks_coll s"
  "background_tasks (snd (delete_paper p s)) = background_tasks s"
  "Tasks_coll (snd (get_task_status t s)) = Tasks_coll s"
  "background_tasks (snd (get_task_status t s)) = background_tasks s"
  by (simp_all add: create_paper_eq get_paper_def redis_set_def update_paper_def model_dump_def
        delete_paper_def redis_delete_def get_task_status_def split: option.splits prod.splits)

lemma task_inv_extract_text:
  assumes inv: "task_inv s" and fresh: "find_one (Tasks_coll s) ''t_id'' u = None"
  shows "task_inv (snd (extract_text u fp ft now s))"
proof -
  let ?d = "\<lparr>oid = next_oid s, body = processing_body u fp ft now\<rparr>"
  have st: "map_of (body ?d) ''task_status'' = Some (JStr ''processing'')"
    by (simp add: processing_body_def)
  have m: "matches ''t_id'' u ?d" by (simp add: matches_def processing_body_def)
  have notin: "u \<notin> set (map job_id (background_tasks s))"
  proof
    assume "u \<in> set (map job_id (background_tasks s))"
    then obtain job where "job \<in> set (background_tasks s)" and "job_id job = u" by auto
    with inv obtain d where "find_one (Tasks_coll s) ''t_id'' u = Some d"
      by (auto simp: task_inv_def)
    with fresh show False by simp
  qed
  have old: "\<exists>d. find_one (Tasks_coll s @ [?d]) ''t_id'' (job_id job) = Some d
                \<and> map_of (body d) ''task_status'' = Some (JStr ''processing'')"
    if "job \<in> set (background_tasks s)" for job
  proof -
    from inv that obtain d where "find_one (Tasks_coll s) ''t_id'' (job_id job) = Some d"
      and "map_of (body d) ''task_status'' = Some (JStr ''processing'')"
      by (auto simp: task_inv_def)
    then show ?thesis by (simp add: find_one_append)
  qed
  have new: "find_one (Tasks_coll s @ [?d]) ''t_id'' u = Some ?d"
    using fresh m by (simp add: find_one_append)
  show ?thesis
    unfolding task_inv_def extract_text_eq
    using inv st notin old new
    by (auto simp: task_inv_def job_id_def)
qed

lemma task_inv_run_worker:
  assumes inv: "task_inv s"
  shows "task_inv (run_worker n raw now s)"
proof (cases "n < length (background_tasks s)")
  case False
  then show ?thesis using inv by (simp add: run_worker_def)
next
  case True
  obtain fp t ft where job: "background_tasks s ! n = (fp, t, ft)"
    by (cases "background_tasks s ! n") auto
  let ?bg = "take n (background_tasks s) @ drop (Suc n) (background_tasks s)"
  let ?s1 = "s\<lparr>background_tasks := ?bg\<rparr>"
  have rw: "run_worker n raw now s = snd (process_Data raw fp t ft now ?s1)"
    using True job by (simp add: run_worker_def)
  define pre where "pre = take n (background_tasks s)"
  define post where "post = drop (Suc n) (background_tasks s)"
  have split: "background_tasks s = pre @ (fp, t, ft) # post"
    unfolding pre_def post_def using True job id_take_nth_drop [of n "background_tasks s"]
    by simp
  have bg: "?bg = pre @ post" by (simp add: pre_def post_def)
  have dist: "distinct (map job_id (pre @ (fp, t, ft) # post))"
    using inv unfolding task_inv_def split by blast
  have dist': "distinct (map job_id ?bg)"
    unfolding bg using dist by simp
  have other: "job_id job \<noteq> t" if "job \<in> set ?bg" for job
    using that dist unfolding bg by (auto simp: job_id_def)
  have sub: "set ?bg \<subseteq> set (background_tasks s)"
    unfolding bg using split by auto
  have inv1: "task_inv ?s1"
    using inv dist' sub by (auto simp: task_inv_def)
  from process_Data_cases [of raw fp t ft now ?s1]
  show ?thesis
  proof
    assume "snd (process_Data raw fp t ft now ?s1) = ?s1"
    then show ?thesis using inv1 by (simp add: rw)
  next
    assume "\<exists>x. snd (process_Data raw fp t ft now ?s1) =
                ?s1\<lparr>Tasks_coll := update_one (Tasks_coll ?s1) ''t_id'' t (completed_upd x)\<rparr>"
    then obtain x where e: "run_worker n raw now s =
                ?s1\<lparr>Tasks_coll := update_one (Tasks_coll s) ''t_id'' t (completed_upd x)\<rparr>"
      by (auto simp: rw)
    have i1: "map_of (body d') ''task_status'' = Some (JStr ''processing'')
              \<or> map_of (body d') ''task_status'' = Some (JStr ''completed'')"
      if "d' \<in> set (update_one (Tasks_coll s) ''t_id'' t (completed_upd x))" for d'
      using set_update_one [OF that] inv
      by (auto simp: task_inv_def completed_upd_status)
    have i3: "\<exists>d. find_one (update_one (Tasks_coll s) ''t_id'' t (completed_upd x)) ''t_id'' (job_id job) = Some d
                \<and> map_of (body d) ''task_status'' = Some (JStr ''processing'')"
      if "job \<in> set ?bg" for job
    proof -
      have "job_id job \<noteq> t" using other that by blast
      moreover have "job \<in> set (background_tasks s)" using sub that by blast
      ultimately show ?thesis using inv
        by (simp add: find_one_update_one_other task_inv_def)
    qed
    show ?thesis
      unfolding e task_inv_def using i1 i3 dist' by simp
  qed
qed

lemma task_inv_same:
  "task_inv s \<Longrightarrow> Tasks_coll s' = Tasks_coll s \<Longrightarrow>
     background_tasks s' = background_tasks s \<Longrightarrow> task_inv s'"
  by (simp add: task_inv_def)

lemma task_inv_exec:
  assumes inv: "task_inv s" and adm: "admissible ev s"
  shows "task_inv (exec ev s)"
proof (cases ev)
  case (Worker n raw now)
  then show ?thesis using inv by (simp add: task_inv_run_worker)
next
  case (Request r)
  show ?thesis
  proof (cases r)
    case (POST_extract_text u fp ft now)
    with Request adm inv show ?thesis by (simp add: task_inv_extract_text)
  next
    case (POST_paper u b)
    have "Tasks_coll (snd (post_paper_route u b s)) = Tasks_coll s"
      and "background_tasks (snd (post_paper_route u b s)) = background_tasks s"
      by (simp_all add: post_paper_route_def paper_handlers_keep_tasks
            split: json.splits option.splits)
    with inv have "task_inv (snd (post_paper_route u b s))" by (rule task_inv_same)
    with Request POST_paper show ?thesis by simp
  next
    case (GET_papers p)
    have "task_inv (snd (get_paper p s))"
      using inv by (rule task_inv_same) (simp_all add: paper_handlers_keep_tasks)
    with Request GET_papers show ?thesis by simp
  next
    case (PUT_papers p b)
    have "Tasks_coll (snd (put_papers_route p b s)) = Tasks_coll s"
      and "background_tasks (snd (put_papers_route p b s)) = background_tasks s"
      by (simp_all add: put_papers_route_def paper_handlers_keep_tasks split: json.splits)
    with inv have "task_inv (snd (put_papers_route p b s))" by (rule task_inv_same)
    with Request PUT_papers show ?thesis by simp
  next
    case (DELETE_papers p q)
    have "Tasks_coll (snd (delete_papers_route p q s)) = Tasks_coll s"
      and "background_tasks (snd (delete_papers_route p q s)) = background_tasks s"
      by (simp_all add: delete_papers_route_def paper_handlers_keep_tasks split: option.splits)
    with inv have "task_inv (snd (delete_papers_route p q s))" by (rule task_inv_same)
    with Request DELETE_papers show ?thesis by simp
  next
    case (GET_tasks t)
    have "task_inv (snd (get_task_status t s))"
      using inv by (rule task_inv_same) (simp_all add: paper_handlers_keep_tasks)
    with Request GET_tasks show ?thesis by simp
  qed
qed

lemma task_inv_run:
  "task_inv s \<Longrightarrow> run evs s = Some s' \<Longrightarrow> task_inv s'"
proof (induction evs arbitrary: s)
  case Nil
  then show ?case by simp
next
  case (Cons ev evs)
  from Cons.prems(2) have adm: "admissible ev s" and r: "run evs (exec ev s) = Some s'"
    by (simp_all split: if_splits)
  from Cons.prems(1) adm have "task_inv (exec ev s)" by (rule task_inv_exec)
  then show ?case using r by (rule Cons.IH)
qed

lemma exec_tasks_cases:
  "Tasks_coll (exec ev s) = Tasks_coll s
   \<or> (\<exists>d. Tasks_coll (exec ev s) = Tasks_coll s @ [d])
   \<or> (\<exists>t x. Tasks_coll (exec ev s) = update_one (Tasks_coll s) ''t_id'' t (completed_upd x))"
proof (cases ev)
  case (Worker n raw now)
  show ?thesis
  proof (cases "n < length (background_tasks s)")
    case False
    with Worker show ?thesis by (simp add: run_worker_def)
  next
    case True
    obtain fp t ft where job: "background_tasks s ! n = (fp, t, ft)"
      by (cases "background_tasks s ! n") auto
    let ?s1 = "s\<lparr>background_tasks :=
                  take n (background_tasks s) @ drop (Suc n) (background_tasks s)\<rparr>"
    have rw: "exec ev s = snd (process_Data raw fp t ft now ?s1)"
      using Worker True job by (simp add: run_worker_def)
    from process_Data_cases [of raw fp t ft now ?s1] show ?thesis
    proof
      assume "snd (process_Data raw fp t ft now ?s1) = ?s1"
      then show ?thesis by (simp add: rw)
    next
      assume "\<exists>x. snd (process_Data raw fp t ft now ?s1) =
                ?s1\<lparr>Tasks_coll := update_one (Tasks_coll ?s1) ''t_id'' t (completed_upd x)\<rparr>"
      then obtain x where "Tasks_coll (exec ev s) =
                update_one (Tasks_coll s) ''t_id'' t (completed_upd x)"
        by (auto simp: rw)
      then show ?thesis by blast
    qed
  qed
next
  case (Request r)
  then show ?thesis
    by (cases r)
       (simp_all add: post_paper_route_def put_papers_route_def delete_papers_route_def
          paper_handlers_keep_tasks extract_text_eq split: json.splits option.splits)
qed

lemma status_values:
  assumes "task_inv s" and "i < length (Tasks_coll s)"
  shows "status_at i s = Some (JStr ''processing'') \<or> status_at i s = Some (JStr ''completed'')"
  using assms nth_mem [of i "Tasks_coll s"] by (auto simp: task_inv_def status_at_def)

lemma row_step:
  assumes inv: "task_inv s" and i: "i < length (Tasks_coll s)"
  shows "i < length (Tasks_coll (exec ev s))
       \<and> map_of (body (Tasks_coll (exec ev s) ! i)) ''t_id'' = map_of (body (Tasks_coll s ! i)) ''t_id''
       \<and> (status_at i (exec ev s) = Some (JStr ''processing'')
          \<or> status_at i (exec ev s) = Some (JStr ''completed'')
          \<or> status_at i (exec ev s) = Some (JStr ''failed''))
       \<and> (status_at i s \<noteq> Some (JStr ''processing'') \<longrightarrow> status_at i (exec ev s) = status_at i s)"
proof -
  note old = status_values [OF inv i]
  from exec_tasks_cases [of ev s] consider
      (same) "Tasks_coll (exec ev s) = Tasks_coll s"
    | (app) d where "Tasks_coll (exec ev s) = Tasks_coll s @ [d]"
    | (upd) t x where "Tasks_coll (exec ev s) = update_one (Tasks_coll s) ''t_id'' t (completed_upd x)"
    by blast
  then show ?thesis
  proof cases
    case same
    then show ?thesis using old i by (auto simp: status_at_def)
  next
    case app
    then show ?thesis using old i by (auto simp: status_at_def nth_append)
  next
    case upd
    from nth_update_one [OF i, of "''t_id''" t "completed_upd x"]
    show ?thesis using old i
      by (auto simp: upd status_at_def length_update_one completed_upd_status completed_upd_t_id)
  qed
qed

lemma pending_status:
  assumes inv: "task_inv s" and p: "pending t s"
  shows "fst (get_task_status t s) =
           JSONResponse (response 200 ''success'' ''Task status retrieved''
                           (JObj [(''status'', JStr ''processing'')]))"
proof -
  from p obtain job where "job \<in> set (background_tasks s)" and "job_id job = t"
    by (auto simp: pending_def)
  with inv obtain d where "find_one (Tasks_coll s) ''t_id'' t = Some d"
    and "map_of (body d) ''task_status'' = Some (JStr ''processing'')"
    by (auto simp: task_inv_def)
  then show ?thesis by (simp add: get_task_status_def)
qed

lemma created_status:
  assumes "find_one (Tasks_coll s) ''t_id'' u = None"
  shows "fst (get_task_status u (snd (extract_text u fp ft now s))) =
           JSONResponse (response 200 ''success'' ''Task status retrieved''
                           (JObj [(''status'', JStr ''processing'')]))"
  using assms
  by (simp add: get_task_status_def extract_text_eq find_one_append matches_def
        processing_body_def)

lemma completed_t1_eq:
  "completed_t1 =
     \<lparr>papers = [],
      Tasks_coll = [\<lparr>oid = 0, body = [(''t_id'', JStr ''t1''), (''task_status'', JStr ''completed''),
                       (''file_path'', JStr ''/tmp/f.txt''), (''file_type'', JStr ''txt''),
                       (''datetime'', JNull), (''extract_data'', JStr ''hello'')]\<rparr>],
      redis_client = (\<lambda>k. None),
      background_tasks = [], next_oid = Suc 0\<rparr>"
  by (simp add: completed_t1_def run_worker_def accepted_t1_eq process_Data_def Tasks_init_def
        get_opt_str_def get_str_def Tasks_update_one_def model_dump_exclude_unset_def
        Tasks_dump_def dump_opt_str_def matches_def set_fields_def)



section \<open>Creating a paper\<close>





section \<open>Reading a paper\<close>



section \<open>Updating a paper\<close>

text \<open>
  C1. The update is meant to answer 422 when the merged record breaks the schema. At
  the stored paper A and the patch that sets \<open>type\<close> to a value the paper validator
  refuses, the merged record is not a valid paper, and yet the handler answers 200 with
  it, writes it to the store and writes it to the cache: the assignment to the model
  and its dump check nothing, so the 422 branch is never taken.
\<close>

theorem update_paper_keeps_invalid_type:
  "validate_paper_type ''bogus'' = Inl (ValueError ''Paper type must be one of allowed_types'')
   \<and> SamplePaper_init bogus_A = None
   \<and> fst (update_paper ''A'' bogus_patch stored_A) =
       JSONResponse (response 200 ''success'' ''Paper updated successfully'' (JObj bogus_A))
   \<and> map body (papers (snd (update_paper ''A'' bogus_patch stored_A))) = [bogus_A]
   \<and> redis_client (snd (update_paper ''A'' bogus_patch stored_A)) ''A'' =
       Some (json_dumps (JObj bogus_A))"
proof -
  have 1: "validate_paper_type ''bogus'' = Inl (ValueError ''Paper type must be one of allowed_types'')"
    by (simp add: validate_paper_type_def)
  have 2: "SamplePaper_init bogus_A = None"
    by (simp add: bogus_A_def SamplePaper_init_def SamplePaper_dump_def get_opt_str_def get_str_def
          dump_opt_str_def validate_paper_type_def)
  have 3: "update_paper ''A'' bogus_patch stored_A =
     (JSONResponse (response 200 ''success'' ''Paper updated successfully'' (JObj bogus_A)),
      redis_set ''A'' (json_dumps (JObj bogus_A))
        (stored_A\<lparr>papers := [\<lparr>oid = 0, body = bogus_A\<rparr>]\<rparr>))"
    by (simp add: update_paper_def stored_A_eq find_one_def matches_p_id_dump
          math_midterm_roundtrip model_dump_def setattrs_def bogus_patch_def hasattr_def
          SamplePaper_fields_def bogus_A_def set_fields_def)
  show ?thesis by (simp add: 1 2 3 redis_set_def)
qed

section \<open>Deleting a paper\<close>

text \<open>
  C5. The deletion is meant to remove the paper named in the request path. The route
  does not read the path segment: its outcome is the same for every path identifier.
  With papers A and B stored, deleting \<^verbatim>\<open>/papers/A\<close> without a query string is refused
  and leaves both papers; with the query \<^verbatim>\<open>paper_id=B\<close> it deletes B, and A is still
  stored and still returned by the read.
\<close>

theorem delete_route_reads_query_not_path:
  "delete_papers_route p query s = delete_papers_route p' query s
   \<and> delete_papers_route ''A'' None stored_AB = (RequestValidationError, stored_AB)
   \<and> fst (delete_papers_route ''A'' (Some ''B'') stored_AB) =
       JSONResponse (response 200 ''success'' ''Paper deleted successfully'' JNull)
   \<and> papers (snd (delete_papers_route ''A'' (Some ''B'') stored_AB)) = papers stored_A
   \<and> fst (get_paper ''A'' (snd (delete_papers_route ''A'' (Some ''B'') stored_AB))) =
       JSONResponse (response 200 ''success'' ''Paper retrieved from database''
                       (JObj (SamplePaper_dump (math_midterm\<lparr>p_id := Some ''A''\<rparr>))))"
  by (simp add: delete_papers_route_def delete_paper_def stored_AB_eq stored_A_eq
        matches_p_id_dump_iff redis_delete_def get_paper_def find_one_def)

section \<open>The extraction worker\<close>

text \<open>
  C2. When the extraction call raises, the worker is meant to record the task as
  \<open>failed\<close> with the failure description. The record it builds for that carries an
  object where the model declares an optional string, so building it raises in turn:
  for every description the worker leaves with a validation error and the state
  unchanged. For the accepted upload t1 the task documents are as before and the status
  read still answers \<open>processing\<close>.
\<close>

theorem process_Data_failure_not_recorded:
  "process_Data (Raised description) fpath task_id ftype now s = (Some ValidationError, s)
   \<and> Tasks_coll (run_worker 0 (Raised ''boom'') JNull accepted_t1) = Tasks_coll accepted_t1
   \<and> fst (get_task_status ''t1'' (run_worker 0 (Raised ''boom'') JNull accepted_t1)) =
       JSONResponse (response 200 ''success'' ''Task status retrieved''
                       (JObj [(''status'', JStr ''processing'')]))"
  by (simp add: process_Data_def process_Data_except_raises run_worker_def accepted_t1_eq
        get_task_status_def find_one_def matches_def)

section \<open>The shape of the answers\<close>

text \<open>
  C6, as amended. Every response a handler returns is the envelope with the keys code,
  status, message and data. A failure a handler signals is an exception with status
  404, 422 or 500, which the framework answers with the body holding the single key
  \<open>detail\<close>: that body is not the envelope.
\<close>

theorem handlers_answer:
  "envelope_or_exception (fst (handle r s))
   \<and> sent_body (HTTPException c detail) = Some (JObj [(''detail'', JStr detail)])
   \<and> \<not> is_envelope (JObj [(''detail'', JStr detail)])"
proof -
  have "envelope_or_exception (fst (handle r s))"
  proof (cases r)
    case (POST_paper u b)
    then show ?thesis
      by (simp add: post_paper_route_def create_paper_eq is_envelope_response
            split: json.splits option.splits)
  next
    case (GET_papers p)
    then show ?thesis
      by (simp add: get_paper_def is_envelope_response split: option.splits)
  next
    case (PUT_papers p b)
    then show ?thesis
      by (simp add: put_papers_route_def update_paper_def model_dump_def is_envelope_response
            split: json.splits option.splits)
  next
    case (DELETE_papers p q)
    then show ?thesis
      by (simp add: delete_papers_route_def delete_paper_def is_envelope_response
            split: option.splits prod.splits)
  next
    case (POST_extract_text u fp ft now)
    then show ?thesis
      by (simp add: extract_text_def Let_def is_envelope_response split: option.splits)
  next
    case (GET_tasks t)
    then show ?thesis
      by (simp add: get_task_status_def is_envelope_response split: option.splits)
  qed
  then show ?thesis
    by (simp add: http_exception_handler_def is_envelope_def)
qed

theorem handlers_answer_witness:
  "envelope_or_exception (fst (handle (GET_papers ''A'') stored_A))
   \<and> envelope_or_exception (fst (handle (GET_papers ''unknown-id'') stored_A))"
  using handlers_answer [of "GET_papers ''A''" stored_A]
        handlers_answer [of "GET_papers ''unknown-id''" stored_A]
  by simp

text \<open>
  C6 as stated fails: the read of an unknown identifier is answered with the body
  \<^verbatim>\<open>{"detail": "Paper not found"}\<close>, which is not the envelope.
\<close>

theorem not_found_is_no_envelope:
  "fst (handle (GET_papers ''unknown-id'') init_state) = HTTPException 404 ''Paper not found''
   \<and> sent_body (fst (handle (GET_papers ''unknown-id'') init_state)) =
       Some (JObj [(''detail'', JStr ''Paper not found'')])
   \<and> \<not> is_envelope (JObj [(''detail'', JStr ''Paper not found'')])"
  by (simp add: get_paper_def init_state_def find_one_def http_exception_handler_def
        is_envelope_def)

section \<open>What validation accepts\<close>




section \<open>Write-through on update\<close>




section \<open>The lifecycle of a task\<close>

text \<open>
  C3. In every state the service reaches from the empty one: an accepted extraction
  request answers 202 and inserts a task document in state \<open>processing\<close> with the
  file path and file type set and no extracted data, and the status read of the new
  task answers \<open>processing\<close>; no event removes a task document or changes its task
  id, a status is always one of \<open>processing\<close>, \<open>completed\<close>, \<open>failed\<close>, and a
  status that has left \<open>processing\<close> is never changed again, so it changes at most
  once; and as long as the worker of a task is scheduled and has not run, the status
  read answers \<open>processing\<close>.
\<close>

theorem task_lifecycle:
  assumes "run evs init_state = Some s"
  shows "fst (extract_text u fp ft now s) =
           JSONResponse (response 202 ''processing'' (upper ft @ '' extraction started'')
                           (JObj [(''task_id'', JStr u)]))
       \<and> Tasks_coll (snd (extract_text u fp ft now s)) =
           Tasks_coll s @
             [\<lparr>oid = next_oid s,
               body = [(''t_id'', JStr u), (''task_status'', JStr ''processing''),
                       (''file_path'', JStr fp), (''file_type'', JStr ft),
                       (''datetime'', now)]\<rparr>]
       \<and> (find_one (Tasks_coll s) ''t_id'' u = None \<longrightarrow>
             fst (get_task_status u (snd (extract_text u fp ft now s))) =
               JSONResponse (response 200 ''success'' ''Task status retrieved''
                               (JObj [(''status'', JStr ''processing'')])))
       \<and> (\<forall>i < length (Tasks_coll s).
             i < length (Tasks_coll (exec ev s))
             \<and> map_of (body (Tasks_coll (exec ev s) ! i)) ''t_id'' =
                 map_of (body (Tasks_coll s ! i)) ''t_id''
             \<and> (status_at i (exec ev s) = Some (JStr ''processing'')
                \<or> status_at i (exec ev s) = Some (JStr ''completed'')
                \<or> status_at i (exec ev s) = Some (JStr ''failed''))
             \<and> (status_at i s \<noteq> Some (JStr ''processing'') \<longrightarrow>
                   status_at i (exec ev s) = status_at i s))
       \<and> (pending t s \<longrightarrow>
             fst (get_task_status t s) =
               JSONResponse (response 200 ''success'' ''Task status retrieved''
                               (JObj [(''status'', JStr ''processing'')])))"
proof -
  have inv: "task_inv s" using task_inv_init assms by (rule task_inv_run)
  have rows: "\<forall>i < length (Tasks_coll s).
             i < length (Tasks_coll (exec ev s))
             \<and> map_of (body (Tasks_coll (exec ev s) ! i)) ''t_id'' =
                 map_of (body (Tasks_coll s ! i)) ''t_id''
             \<and> (status_at i (exec ev s) = Some (JStr ''processing'')
                \<or> status_at i (exec ev s) = Some (JStr ''completed'')
                \<or> status_at i (exec ev s) = Some (JStr ''failed''))
             \<and> (status_at i s \<noteq> Some (JStr ''processing'') \<longrightarrow>
                   status_at i (exec ev s) = status_at i s)"
    using row_step [OF inv] by blast
  have pend: "pending t s \<longrightarrow>
             fst (get_task_status t s) =
               JSONResponse (response 200 ''success'' ''Task status retrieved''
                               (JObj [(''status'', JStr ''processing'')]))"
    using pending_status [OF inv] by blast
  have new: "find_one (Tasks_coll s) ''t_id'' u = None \<longrightarrow>
             fst (get_task_status u (snd (extract_text u fp ft now s))) =
               JSONResponse (response 200 ''success'' ''Task status retrieved''
                               (JObj [(''status'', JStr ''processing'')]))"
    using created_status by blast
  have made: "fst (extract_text u fp ft now s) =
           JSONResponse (response 202 ''processing'' (upper ft @ '' extraction started'')
                           (JObj [(''task_id'', JStr u)]))
       \<and> Tasks_coll (snd (extract_text u fp ft now s)) =
           Tasks_coll s @
             [\<lparr>oid = next_oid s,
               body = [(''t_id'', JStr u), (''task_status'', JStr ''processing''),
                       (''file_path'', JStr fp), (''file_type'', JStr ft),
                       (''datetime'', now)]\<rparr>]"
    by (simp add: extract_text_eq processing_body_def)
  from made new rows pend show ?thesis by blast
qed

theorem task_lifecycle_witness:
  "run [Request (POST_extract_text ''t1'' ''/tmp/f.txt'' ''txt'' JNull)] init_state = Some accepted_t1
   \<and> pending ''t1'' accepted_t1
   \<and> fst (get_task_status ''t1'' accepted_t1) =
       JSONResponse (response 200 ''success'' ''Task status retrieved''
                       (JObj [(''status'', JStr ''processing'')]))
   \<and> run [Request (POST_extract_text ''t1'' ''/tmp/f.txt'' ''txt'' JNull),
           Worker 0 (Returned (JStr ''hello'')) JNull] init_state = Some completed_t1
   \<and> status_at 0 completed_t1 = Some (JStr ''completed'')
   \<and> status_at 0 (exec (Worker 0 (Returned (JStr ''again'')) JNull) completed_t1) =
       Some (JStr ''completed'')
   \<and> status_at 0 (exec (Request (POST_extract_text ''t1'' ''/tmp/g.txt'' ''txt'' JNull))
                     completed_t1) = Some (JStr ''completed'')"
proof -
  let ?e1 = "Request (POST_extract_text ''t1'' ''/tmp/f.txt'' ''txt'' JNull)"
  let ?e2 = "Worker 0 (Returned (JStr ''hello'')) JNull"
  have r1: "run [?e1] init_state = Some accepted_t1"
    by (simp add: accepted_t1_def) (simp add: init_state_def find_one_def)
  have r2: "run [?e1, ?e2] init_state = Some completed_t1"
    using r1 by (simp add: completed_t1_def split: if_splits)
  have p: "pending ''t1'' accepted_t1"
    by (simp add: pending_def job_id_def accepted_t1_eq)
  have st: "status_at 0 completed_t1 = Some (JStr ''completed'')"
    by (simp add: status_at_def completed_t1_eq)
  have len: "0 < length (Tasks_coll completed_t1)"
    by (simp add: completed_t1_eq)
  have ne: "status_at 0 completed_t1 \<noteq> Some (JStr ''processing'')"
    by (simp add: st)
  from task_lifecycle [OF r1, where t = "''t1''"] p
  have a: "fst (get_task_status ''t1'' accepted_t1) =
       JSONResponse (response 200 ''success'' ''Task status retrieved''
                       (JObj [(''status'', JStr ''processing'')]))"
    by blast
  from task_lifecycle [OF r2, where ev = "Worker 0 (Returned (JStr ''again'')) JNull"] len ne
  have b: "status_at 0 (exec (Worker 0 (Returned (JStr ''again'')) JNull) completed_t1) =
             status_at 0 completed_t1"
    by blast
  from task_lifecycle [OF r2,
      where ev = "Request (POST_extract_text ''t1'' ''/tmp/g.txt'' ''txt'' JNull)"] len ne
  have c: "status_at 0 (exec (Request (POST_extract_text ''t1'' ''/tmp/g.txt'' ''txt'' JNull))
                     completed_t1) = status_at 0 completed_t1"
    by blast
  from r1 r2 p st a b c show ?thesis by simp
qed

end
